theory Spec2Isabelle
  imports Complex_Main "HOL-Library.Char_ord" "HOL-Library.List_Lexorder" "HOL-Library.Word"
begin

section \<open>Data model\<close>

text \<open>
  The three scripts (\<^verbatim>\<open>fetch_icolcap_to_sqlite.py\<close>, \<^verbatim>\<open>add_ticker_to_db.py\<close>,
  \<^verbatim>\<open>check_ticker_in_db.py\<close>) work on one SQLite store with the two tables of
  \<^verbatim>\<open>create_tables\<close>. A value is what a column holds: NULL, an INTEGER, a REAL or a
  TEXT. A finite double is kept as the exact rational it denotes: the code stores it,
  compares it and hands it back, and computes nothing with it.
\<close>

datatype val = VNull | VInt int | VReal rat | VText string

text \<open>
  Table \<^verbatim>\<open>ticker_prices\<close>: \<^verbatim>\<open>ticker TEXT NOT NULL, date TEXT NOT NULL\<close>, eight
  nullable REAL columns, \<^verbatim>\<open>PRIMARY KEY (ticker, date)\<close>.
\<close>

record price_row =
  p_ticker :: string
  p_date :: string
  p_open :: val
  p_high :: val
  p_low :: val
  p_close :: val
  p_adj_close :: val
  p_volume :: val
  p_dividends :: val
  p_stock_splits :: val

text \<open>
  Table \<^verbatim>\<open>ticker_info\<close>: \<^verbatim>\<open>ticker TEXT PRIMARY KEY\<close>, nine nullable TEXT columns,
  \<^verbatim>\<open>market_cap REAL\<close>, \<^verbatim>\<open>raw_info_json TEXT NOT NULL\<close> and \<^verbatim>\<open>updated_at\<close>.
\<close>

record info_row =
  i_ticker :: string
  i_short_name :: val
  i_long_name :: val
  i_quote_type :: val
  i_currency :: val
  i_exchange :: val
  i_market_cap :: val
  i_sector :: val
  i_industry :: val
  i_country :: val
  i_website :: val
  i_raw_info_json :: val
  i_updated_at :: val

text \<open>
  The connection is the content of a store on which the two tables exist: the rows of
  each table, in rowid order. A table is a list, so that the uniqueness of the primary
  key is a property to be proved of the upserts and not a consequence of the
  representation.
\<close>

record db =
  ticker_info :: "info_row list"
  ticker_prices :: "price_row list"

definition price_key :: "price_row \<Rightarrow> string \<times> string" where
  "price_key r = (p_ticker r, p_date r)"

text \<open>What the declared primary keys guarantee of every stored table.\<close>

definition pk_prices :: "price_row list \<Rightarrow> bool" where
  "pk_prices tbl = distinct (map price_key tbl)"

definition pk_info :: "info_row list \<Rightarrow> bool" where
  "pk_info tbl = distinct (map i_ticker tbl)"

text \<open>
  \<^verbatim>\<open>CREATE TABLE IF NOT EXISTS\<close>, twice. A table that does not exist yet holds no
  rows, and creating it leaves it with no rows; an existing table is not touched.
\<close>

definition create_tables :: "db \<Rightarrow> db" where
  "create_tables conn = conn"

text \<open>
  What a path of the file system holds, as the reporter meets it, which creates
  nothing: a file that is no SQLite database, a database in which table
  \<^verbatim>\<open>ticker_prices\<close> does not exist, or a store with the tables.
\<close>

datatype store_file = Not_A_Database | No_Tables | Store db

datatype error =
  RuntimeError string
  | FileNotFoundError string
  | OverflowError string
  | ProgrammingError
  | TypeError
  | OperationalError string
  | DatabaseError string

section \<open>Python values and how SQLite takes them\<close>

text \<open>
  The values of the metadata mapping (\<^verbatim>\<open>dict[str, Any]\<close>): None, an int (a bool is
  the int it is), a finite float, the float NaN, a str, or any other object, such as a
  list or a dict, for which \<^verbatim>\<open>sqlite3\<close> has no adapter.
\<close>

datatype pyval = PNone | PInt int | PFloat rat | PNaN | PStr string | PObject

text \<open>
  Binding one \<^verbatim>\<open>?\<close> parameter: None is NULL, an int is an INTEGER when it fits 64
  bits and \<^verbatim>\<open>OverflowError\<close> otherwise, a float is a REAL but NaN is NULL, a str is
  TEXT, and any other object is refused.
\<close>

definition bind_param :: "pyval \<Rightarrow> error + val" where
  "bind_param v =
     (case v of
        PNone \<Rightarrow> Inr VNull
      | PInt i \<Rightarrow>
          if - (2 ^ 63) \<le> i \<and> i < 2 ^ 63 then Inr (VInt i)
          else Inl (OverflowError ''Python int too large to convert to SQLite INTEGER'')
      | PFloat r \<Rightarrow> Inr (VReal r)
      | PNaN \<Rightarrow> Inr VNull
      | PStr s \<Rightarrow> Inr (VText s)
      | PObject \<Rightarrow> Inl ProgrammingError)"

text \<open>The parameters are bound in order; the first one refused ends the call.\<close>

fun bind_params :: "pyval list \<Rightarrow> error + val list" where
  "bind_params [] = Inr []"
| "bind_params (v # vs) =
     (case bind_param v of
        Inl e \<Rightarrow> Inl e
      | Inr x \<Rightarrow> (case bind_params vs of Inl e \<Rightarrow> Inl e | Inr xs \<Rightarrow> Inr (x # xs)))"

text \<open>
  An INTEGER stored in a REAL column becomes the double nearest to it (ties to the even
  significand, the default rounding of the C conversion): the integer itself up to
  \<open>2 ^ 53\<close>, a multiple of a power of two beyond.
\<close>

fun bit_length :: "nat \<Rightarrow> nat" where
  "bit_length n = (if n = 0 then 0 else Suc (bit_length (n div 2)))"

declare bit_length.simps [simp del]

definition nearest_double :: "nat \<Rightarrow> nat" where
  "nearest_double n =
     (let e = bit_length n - 53; q = n div 2 ^ e; r = n mod 2 ^ e
      in (if 2 ^ e < 2 * r \<or> (2 * r = 2 ^ e \<and> odd q) then q + 1 else q) * 2 ^ e)"

definition int_to_real :: "int \<Rightarrow> rat" where
  "int_to_real i =
     (if i < 0 then - of_nat (nearest_double (nat (- i))) else of_nat (nearest_double (nat i)))"

text \<open>
  What the engine does beyond this and the code cannot see: how it prints a REAL that
  is stored in a TEXT column, and which TEXT it reads as a number when it is stored in
  a REAL column.
\<close>

record sqlite =
  real_text :: "rat \<Rightarrow> string"
  text_real :: "string \<Rightarrow> rat option"

section \<open>The provider\<close>

text \<open>
  A Python dict with string keys, as an association list; \<^verbatim>\<open>d.get(k)\<close> is the value
  under \<^verbatim>\<open>k\<close>, or None.
\<close>

type_synonym dict = "(string \<times> pyval) list"

definition dict_get :: "dict \<Rightarrow> string \<Rightarrow> pyval" where
  "dict_get d k = (case map_of d k of None \<Rightarrow> PNone | Some v \<Rightarrow> v)"

text \<open>
  The index of the history frame: a timestamp with its wall-clock fields and, when it is
  timezone-aware, its offset from UTC in minutes.
\<close>

record timestamp =
  year :: nat
  month :: nat
  day :: nat
  hour :: nat
  minute :: nat
  second :: nat
  utcoffset :: "int option"

text \<open>
  A cell of the history frame, whose columns are \<^verbatim>\<open>int64\<close> and \<^verbatim>\<open>float64\<close>: what
  \<^verbatim>\<open>iterrows\<close> hands out is a Python int of 64 bits, a finite float, or NaN.
\<close>

datatype cell = Int64 "64 word" | Float64 rat | NaN64

text \<open>One row of the history frame: its index and its named cells.\<close>

record bar =
  stamp :: timestamp
  cells :: "(string \<times> cell) list"

text \<open>
  The two calls made on \<^verbatim>\<open>yf.Ticker(ticker)\<close>: \<^verbatim>\<open>.info\<close> and
  \<^verbatim>\<open>.history(period=period, auto_adjust=False, actions=True)\<close>.
\<close>

record yfinance =
  yf_info :: "string \<Rightarrow> dict"
  yf_history :: "string \<Rightarrow> string \<Rightarrow> bar list"

section \<open>Decimal digits and date normalisation\<close>

text \<open>
  \<^verbatim>\<open>history[date_column].dt.date.astype(str)\<close>: \<^verbatim>\<open>.dt.date\<close> keeps the year, month
  and day of the wall-clock time, and \<^verbatim>\<open>str\<close> of a date is
  \<^verbatim>\<open>"%04d-%02d-%02d"\<close>.
\<close>

definition digit_char :: "nat \<Rightarrow> char" where
  "digit_char d = ''0123456789'' ! d"

fun dec :: "nat \<Rightarrow> string" where
  "dec n = (if n < 10 then [digit_char n] else dec (n div 10) @ [digit_char (n mod 10)])"

declare dec.simps [simp del]

definition zero_pad :: "nat \<Rightarrow> nat \<Rightarrow> string" where
  "zero_pad w n = replicate (w - length (dec n)) (CHR ''0'') @ dec n"

definition dt_date :: "timestamp \<Rightarrow> nat \<times> nat \<times> nat" where
  "dt_date ts = (year ts, month ts, day ts)"

definition date_str :: "nat \<times> nat \<times> nat \<Rightarrow> string" where
  "date_str ymd = (case ymd of (y, m, d) \<Rightarrow>
     zero_pad 4 y @ ''-'' @ zero_pad 2 m @ ''-'' @ zero_pad 2 d)"

definition normalize_date :: "timestamp \<Rightarrow> string" where
  "normalize_date ts = date_str (dt_date ts)"

section \<open>Column affinity\<close>

text \<open>
  A TEXT column holds an INTEGER as its decimal digits and a REAL as the engine prints
  it. A REAL column holds an INTEGER as the nearest double and a TEXT that the engine
  reads as a number as that number. NULL is kept, and so is every value that already
  has the type of its column.
\<close>

definition int_text :: "int \<Rightarrow> string" where
  "int_text i = (if i < 0 then CHR ''-'' # dec (nat (- i)) else dec (nat i))"

definition text_affinity :: "sqlite \<Rightarrow> val \<Rightarrow> val" where
  "text_affinity eng v =
     (case v of
        VInt i \<Rightarrow> VText (int_text i)
      | VReal r \<Rightarrow> VText (real_text eng r)
      | _ \<Rightarrow> v)"

definition real_affinity :: "sqlite \<Rightarrow> val \<Rightarrow> val" where
  "real_affinity eng v =
     (case v of
        VInt i \<Rightarrow> VReal (int_to_real i)
      | VText s \<Rightarrow> (case text_real eng s of None \<Rightarrow> VText s | Some r \<Rightarrow> VReal r)
      | _ \<Rightarrow> v)"

text \<open>
  The same, read off the Python value: whether \<^verbatim>\<open>sqlite3\<close> binds it, and what a TEXT
  column and a REAL column hold for a value that it binds (the last case of each table
  is never reached for such a value).
\<close>

definition bindable :: "pyval \<Rightarrow> bool" where
  "bindable v =
     (case v of
        PInt i \<Rightarrow> - (2 ^ 63) \<le> i \<and> i < 2 ^ 63
      | PObject \<Rightarrow> False
      | _ \<Rightarrow> True)"

definition held_as_text :: "sqlite \<Rightarrow> pyval \<Rightarrow> val" where
  "held_as_text eng v =
     (case v of
        PNone \<Rightarrow> VNull
      | PNaN \<Rightarrow> VNull
      | PStr s \<Rightarrow> VText s
      | PInt i \<Rightarrow> VText (int_text i)
      | PFloat r \<Rightarrow> VText (real_text eng r)
      | PObject \<Rightarrow> VNull)"

definition held_as_real :: "sqlite \<Rightarrow> pyval \<Rightarrow> val" where
  "held_as_real eng v =
     (case v of
        PNone \<Rightarrow> VNull
      | PNaN \<Rightarrow> VNull
      | PFloat r \<Rightarrow> VReal r
      | PInt i \<Rightarrow> VReal (int_to_real i)
      | PStr s \<Rightarrow> (case text_real eng s of None \<Rightarrow> VText s | Some r \<Rightarrow> VReal r)
      | PObject \<Rightarrow> VNull)"

text \<open>
  A cell of the frame bound to a REAL column of \<^verbatim>\<open>ticker_prices\<close>: a missing cell
  (None) and NaN are NULL, a float is stored as it is, and an int, which always fits 64
  bits, is bound as an INTEGER and stored as the nearest double. No TEXT occurs.
\<close>

definition bind_cell :: "cell option \<Rightarrow> val" where
  "bind_cell c =
     (case c of
        None \<Rightarrow> VNull
      | Some (Int64 w) \<Rightarrow> VInt (sint w)
      | Some (Float64 r) \<Rightarrow> VReal r
      | Some NaN64 \<Rightarrow> VNull)"

definition real_column :: "cell option \<Rightarrow> val" where
  "real_column c = (case bind_cell c of VInt i \<Rightarrow> VReal (int_to_real i) | v \<Rightarrow> v)"

section \<open>The upserts\<close>

text \<open>The tuple built for one row of the frame inside the \<^verbatim>\<open>iterrows\<close> loop.\<close>

record price_params =
  q_ticker :: string
  q_date :: string
  q_open :: "cell option"
  q_high :: "cell option"
  q_low :: "cell option"
  q_close :: "cell option"
  q_adj_close :: "cell option"
  q_volume :: "cell option"
  q_dividends :: "cell option"
  q_stock_splits :: "cell option"

definition price_tuple :: "string \<Rightarrow> bar \<Rightarrow> price_params" where
  "price_tuple ticker row =
     \<lparr>q_ticker = ticker,
      q_date = normalize_date (stamp row),
      q_open = map_of (cells row) ''Open'',
      q_high = map_of (cells row) ''High'',
      q_low = map_of (cells row) ''Low'',
      q_close = map_of (cells row) ''Close'',
      q_adj_close = map_of (cells row) ''Adj Close'',
      q_volume = map_of (cells row) ''Volume'',
      q_dividends = map_of (cells row) ''Dividends'',
      q_stock_splits = map_of (cells row) ''Stock Splits''\<rparr>"

text \<open>
  The row that \<^verbatim>\<open>INSERT INTO ticker_prices (...) VALUES (?, ?, ?, ?, ?, ?, ?, ?, ?, ?)\<close>
  proposes for one tuple (\<^verbatim>\<open>excluded\<close> in the statement): the two strings as they
  are, and the eight cells as the REAL columns hold them.
\<close>

definition excluded_price :: "price_params \<Rightarrow> price_row" where
  "excluded_price q =
     \<lparr>p_ticker = q_ticker q,
      p_date = q_date q,
      p_open = real_column (q_open q),
      p_high = real_column (q_high q),
      p_low = real_column (q_low q),
      p_close = real_column (q_close q),
      p_adj_close = real_column (q_adj_close q),
      p_volume = real_column (q_volume q),
      p_dividends = real_column (q_dividends q),
      p_stock_splits = real_column (q_stock_splits q)\<rparr>"

text \<open>
  \<^verbatim>\<open>INSERT INTO ticker_prices ... ON CONFLICT(ticker, date) DO UPDATE SET
  open = excluded.open, ...\<close> for the row \<open>new\<close> that one parameter tuple proposes,
  whose values are already as the REAL columns hold them: a row with the same key has
  its eight non-key columns set from it, otherwise it is appended.
\<close>

definition insert_price :: "price_row list \<Rightarrow> price_row \<Rightarrow> price_row list" where
  "insert_price tbl new =
     (if list_ex (\<lambda>old. price_key old = price_key new) tbl
      then map (\<lambda>old. if price_key old = price_key new
                  then old\<lparr>p_open := p_open new, p_high := p_high new, p_low := p_low new,
                           p_close := p_close new, p_adj_close := p_adj_close new,
                           p_volume := p_volume new, p_dividends := p_dividends new,
                           p_stock_splits := p_stock_splits new\<rparr>
                  else old) tbl
      else tbl @ [new])"

text \<open>\<^verbatim>\<open>conn.executemany\<close>: the statement once per tuple, in the order of the list.\<close>

definition executemany_prices :: "price_row list \<Rightarrow> price_params list \<Rightarrow> price_row list" where
  "executemany_prices tbl rows = foldl (\<lambda>tbl q. insert_price tbl (excluded_price q)) tbl rows"

text \<open>
  \<^verbatim>\<open>upsert_price_history(conn, ticker, period)\<close>, the same in both fetch scripts. It
  returns the connection as it leaves it and the \<^verbatim>\<open>int\<close> it returns.
\<close>

definition upsert_price_history :: "yfinance \<Rightarrow> db \<Rightarrow> string \<Rightarrow> string \<Rightarrow> db \<times> nat" where
  "upsert_price_history yf conn ticker period =
     (let history = yf_history yf ticker period in
      if history = [] then (conn, 0)
      else
        let rows = map (price_tuple ticker) history in
        (conn\<lparr>ticker_prices := executemany_prices (ticker_prices conn) rows\<rparr>, length rows))"

text \<open>
  The twelve parameters of the metadata statement, in the order of its \<^verbatim>\<open>?\<close> marks;
  \<open>raw\<close> is the string \<^verbatim>\<open>json.dumps(info, ensure_ascii=True)\<close> returned.
\<close>

definition info_params :: "string \<Rightarrow> dict \<Rightarrow> string \<Rightarrow> pyval list" where
  "info_params ticker info raw =
     [PStr ticker,
      dict_get info ''shortName'',
      dict_get info ''longName'',
      dict_get info ''quoteType'',
      dict_get info ''currency'',
      dict_get info ''exchange'',
      dict_get info ''marketCap'',
      dict_get info ''sector'',
      dict_get info ''industry'',
      dict_get info ''country'',
      dict_get info ''website'',
      PStr raw]"

text \<open>
  The row that \<^verbatim>\<open>INSERT INTO ticker_info (...) VALUES (?, ..., ?, CURRENT_TIMESTAMP)\<close>
  proposes for the bound parameters \<open>xs\<close>: each under the affinity of its column, with
  \<^verbatim>\<open>market_cap\<close> the one REAL column. The clock reading \<open>now\<close> is the text
  \<^verbatim>\<open>YYYY-MM-DD HH:MM:SS\<close> that \<^verbatim>\<open>CURRENT_TIMESTAMP\<close> yields, which the column
  \<^verbatim>\<open>updated_at\<close> keeps as text.
\<close>

definition excluded_info :: "sqlite \<Rightarrow> string \<Rightarrow> string \<Rightarrow> val list \<Rightarrow> info_row" where
  "excluded_info eng now ticker xs =
     \<lparr>i_ticker = ticker,
      i_short_name = text_affinity eng (xs ! 1),
      i_long_name = text_affinity eng (xs ! 2),
      i_quote_type = text_affinity eng (xs ! 3),
      i_currency = text_affinity eng (xs ! 4),
      i_exchange = text_affinity eng (xs ! 5),
      i_market_cap = real_affinity eng (xs ! 6),
      i_sector = text_affinity eng (xs ! 7),
      i_industry = text_affinity eng (xs ! 8),
      i_country = text_affinity eng (xs ! 9),
      i_website = text_affinity eng (xs ! 10),
      i_raw_info_json = text_affinity eng (xs ! 11),
      i_updated_at = VText now\<rparr>"

text \<open>
  \<^verbatim>\<open>INSERT INTO ticker_info ... VALUES (?, ..., CURRENT_TIMESTAMP) ON CONFLICT(ticker)
  DO UPDATE SET short_name = excluded.short_name, ..., updated_at = CURRENT_TIMESTAMP\<close>
  for the row \<open>new\<close> that the statement proposes, whose values are already as the
  columns hold them.
\<close>

definition insert_info :: "string \<Rightarrow> info_row list \<Rightarrow> info_row \<Rightarrow> info_row list" where
  "insert_info now tbl new =
     (if list_ex (\<lambda>old. i_ticker old = i_ticker new) tbl
      then map (\<lambda>old. if i_ticker old = i_ticker new
                  then old\<lparr>i_short_name := i_short_name new, i_long_name := i_long_name new,
                           i_quote_type := i_quote_type new, i_currency := i_currency new,
                           i_exchange := i_exchange new, i_market_cap := i_market_cap new,
                           i_sector := i_sector new, i_industry := i_industry new,
                           i_country := i_country new, i_website := i_website new,
                           i_raw_info_json := i_raw_info_json new,
                           i_updated_at := VText now\<rparr>
                  else old) tbl
      else tbl @ [new])"

text \<open>
  \<^verbatim>\<open>upsert_ticker_info(conn, ticker, info)\<close>, the same in both fetch scripts. The
  parameter tuple is built first, so a \<^verbatim>\<open>json.dumps\<close> that raises ends the call
  before the statement runs; \<^verbatim>\<open>json.dumps\<close> is the library's serialiser, taken as
  the parameter \<open>json_dumps\<close>. Then the parameters are bound, and a refused one ends the
  call with nothing written. The result is the exception or None, and the connection
  as the call leaves it.
\<close>

definition upsert_ticker_info ::
  "sqlite \<Rightarrow> (dict \<Rightarrow> error + string) \<Rightarrow> string \<Rightarrow> db \<Rightarrow> string \<Rightarrow> dict \<Rightarrow> (error + unit) \<times> db" where
  "upsert_ticker_info eng json_dumps now conn ticker info =
     (case json_dumps info of
        Inl e \<Rightarrow> (Inl e, conn)
      | Inr raw \<Rightarrow>
          (case bind_params (info_params ticker info raw) of
             Inl e \<Rightarrow> (Inl e, conn)
           | Inr xs \<Rightarrow>
               (Inr (),
                conn\<lparr>ticker_info :=
                  insert_info now (ticker_info conn) (excluded_info eng now ticker xs)\<rparr>)))"

section \<open>The entry points of the fetch scripts\<close>

text \<open>\<^verbatim>\<open>fetch_info\<close> of \<^verbatim>\<open>fetch_icolcap_to_sqlite.py\<close>.\<close>

definition fetch_info :: "yfinance \<Rightarrow> string \<Rightarrow> error + dict" where
  "fetch_info yf ticker =
     (let info = yf_info yf ticker in
      if info = [] then Inl (RuntimeError (''No metadata returned for ticker: '' @ ticker))
      else Inr info)"

text \<open>\<^verbatim>\<open>fetch_ticker_info\<close> of \<^verbatim>\<open>add_ticker_to_db.py\<close>.\<close>

definition fetch_ticker_info :: "yfinance \<Rightarrow> string \<Rightarrow> error + dict" where
  "fetch_ticker_info yf ticker =
     (let info = yf_info yf ticker in
      if info = [] then Inl (RuntimeError (''No ticker metadata returned for '' @ ticker))
      else Inr info)"

text \<open>What a script prints, with the values it prints.\<close>

datatype printed =
  Saved string nat
  | Upserted string nat
  | NoPriceRows string
  | Summary string nat string string val

text \<open>
  The body of \<^verbatim>\<open>main\<close> of \<^verbatim>\<open>fetch_icolcap_to_sqlite.py\<close> from
  \<^verbatim>\<open>with sqlite3.connect(db_path) as conn\<close> on. The result is the error that leaves
  the block or the line printed after it, and the store as the block leaves it: on an
  exception the block rolls back what was written since the last commit, which is
  nothing when \<^verbatim>\<open>fetch_info\<close> or \<^verbatim>\<open>upsert_ticker_info\<close> raises.
\<close>

definition icolcap_main ::
  "sqlite \<Rightarrow> yfinance \<Rightarrow> (dict \<Rightarrow> error + string) \<Rightarrow> string \<Rightarrow> db \<Rightarrow> string \<Rightarrow> string
     \<Rightarrow> (error + printed) \<times> db" where
  "icolcap_main eng yf json_dumps now store ticker period =
     (let conn = create_tables store in
      case fetch_info yf ticker of
        Inl e \<Rightarrow> (Inl e, conn)
      | Inr info \<Rightarrow>
          (case upsert_ticker_info eng json_dumps now conn ticker info of
             (Inl e, _) \<Rightarrow> (Inl e, conn)
           | (Inr _, conn1) \<Rightarrow>
               let (conn2, count) = upsert_price_history yf conn1 ticker period
               in (Inr (Saved ticker count), conn2)))"

text \<open>The same for \<^verbatim>\<open>main\<close> of \<^verbatim>\<open>add_ticker_to_db.py\<close>.\<close>

definition add_main ::
  "sqlite \<Rightarrow> yfinance \<Rightarrow> (dict \<Rightarrow> error + string) \<Rightarrow> string \<Rightarrow> db \<Rightarrow> string \<Rightarrow> string
     \<Rightarrow> (error + printed) \<times> db" where
  "add_main eng yf json_dumps now store ticker period =
     (let conn = create_tables store in
      case fetch_ticker_info yf ticker of
        Inl e \<Rightarrow> (Inl e, conn)
      | Inr info \<Rightarrow>
          (case upsert_ticker_info eng json_dumps now conn ticker info of
             (Inl e, _) \<Rightarrow> (Inl e, conn)
           | (Inr _, conn1) \<Rightarrow>
               let (conn2, inserted) = upsert_price_history yf conn1 ticker period
               in (Inr (Upserted ticker inserted), conn2)))"

section \<open>The summary reporter\<close>

text \<open>
  The inner query \<^verbatim>\<open>SELECT close FROM ticker_prices p2 WHERE p2.ticker = p1.ticker
  ORDER BY date DESC LIMIT 1\<close>: the rows of the ticker are scanned and the one with the
  greatest date is kept. TEXT is compared bytewise, which is the lexicographic order
  of strings.
\<close>

fun order_by_date_desc_limit_1 :: "price_row list \<Rightarrow> price_row option" where
  "order_by_date_desc_limit_1 [] = None"
| "order_by_date_desc_limit_1 (r # rs) =
     (case order_by_date_desc_limit_1 rs of
        None \<Rightarrow> Some r
      | Some b \<Rightarrow> if p_date r < p_date b then Some b else Some r)"

definition latest_close :: "price_row list \<Rightarrow> string \<Rightarrow> val" where
  "latest_close tbl ticker =
     (case order_by_date_desc_limit_1 (filter (\<lambda>p2. p_ticker p2 = ticker) tbl) of
        None \<Rightarrow> VNull
      | Some r \<Rightarrow> p_close r)"

text \<open>The aggregates \<^verbatim>\<open>MIN(date)\<close> and \<^verbatim>\<open>MAX(date)\<close> over a non-empty group.\<close>

fun min_date :: "string \<Rightarrow> string list \<Rightarrow> string" where
  "min_date d [] = d"
| "min_date d (x # xs) = min_date (min d x) xs"

fun max_date :: "string \<Rightarrow> string list \<Rightarrow> string" where
  "max_date d [] = d"
| "max_date d (x # xs) = max_date (max d x) xs"

text \<open>
  The query of \<^verbatim>\<open>check_ticker_in_db.py\<close> and \<^verbatim>\<open>fetchone()\<close>: the rows with
  \<^verbatim>\<open>ticker = ?\<close> form one group, or none when there is no such row.
\<close>

definition summary_query ::
  "price_row list \<Rightarrow> string \<Rightarrow> (string \<times> nat \<times> string \<times> string \<times> val) option" where
  "summary_query tbl ticker =
     (case filter (\<lambda>p1. p_ticker p1 = ticker) tbl of
        [] \<Rightarrow> None
      | p1 # rest \<Rightarrow>
          Some (p_ticker p1,
                length (p1 # rest),
                min_date (p_date p1) (map p_date rest),
                max_date (p_date p1) (map p_date rest),
                latest_close tbl (p_ticker p1)))"

text \<open>
  \<^verbatim>\<open>main\<close> of \<^verbatim>\<open>check_ticker_in_db.py\<close>. The file system maps a path to what is
  kept there, if anything. The script checks that the path exists and creates no table:
  on a file that is no database, or that has no table \<^verbatim>\<open>ticker_prices\<close>, the query
  raises.
\<close>

definition check_main :: "(string \<Rightarrow> store_file option) \<Rightarrow> string \<Rightarrow> string \<Rightarrow> error + printed" where
  "check_main files db_path ticker =
     (case files db_path of
        None \<Rightarrow> Inl (FileNotFoundError (''Database not found: '' @ db_path))
      | Some Not_A_Database \<Rightarrow> Inl (DatabaseError ''file is not a database'')
      | Some No_Tables \<Rightarrow> Inl (OperationalError ''no such table: ticker_prices'')
      | Some (Store conn) \<Rightarrow>
          (case summary_query (ticker_prices conn) ticker of
             None \<Rightarrow> Inr (NoPriceRows ticker)
           | Some (t, row_count, first_date, last_date, close) \<Rightarrow>
               if row_count = 0 then Inr (NoPriceRows ticker)
               else Inr (Summary t row_count first_date last_date close)))"

section \<open>Example data\<close>

text \<open>
  A small store and a provider, on which the theorems below are instantiated. The store
  holds a stale row of ticker XYZ beside rows of ticker ABC; the provider returns three
  bars for XYZ, the last two on the same calendar date.
\<close>

definition demo_price :: "string \<Rightarrow> string \<Rightarrow> rat \<Rightarrow> price_row" where
  "demo_price ticker date c =
     \<lparr>p_ticker = ticker, p_date = date, p_open = VNull, p_high = VNull, p_low = VNull,
      p_close = VReal c, p_adj_close = VNull, p_volume = VNull, p_dividends = VNull,
      p_stock_splits = VNull\<rparr>"

definition demo_info_row :: "string \<Rightarrow> string \<Rightarrow> info_row" where
  "demo_info_row ticker name =
     \<lparr>i_ticker = ticker, i_short_name = VText name, i_long_name = VText name,
      i_quote_type = VText ''EQUITY'', i_currency = VText ''USD'', i_exchange = VNull,
      i_market_cap = VReal 7, i_sector = VText ''Old sector'', i_industry = VNull,
      i_country = VNull, i_website = VNull, i_raw_info_json = VText ''{}'',
      i_updated_at = VText ''2024-01-01 00:00:00''\<rparr>"

definition demo_store :: db where
  "demo_store =
     \<lparr>ticker_info = [demo_info_row ''ABC'' ''Abc'', demo_info_row ''XYZ'' ''Stale''],
      ticker_prices = [demo_price ''ABC'' ''2024-01-03'' 5, demo_price ''XYZ'' ''2024-01-03'' 99]\<rparr>"

definition demo_bar :: "nat \<Rightarrow> nat \<Rightarrow> rat \<Rightarrow> bar" where
  "demo_bar d h c =
     \<lparr>stamp = \<lparr>year = 2024, month = 1, day = d, hour = h, minute = 0, second = 0,
               utcoffset = Some (- 300)\<rparr>,
      cells = [(''Open'', Float64 c), (''Close'', Float64 c), (''Volume'', Int64 100),
               (''Dividends'', NaN64)]\<rparr>"

definition demo_yf :: yfinance where
  "demo_yf =
     \<lparr>yf_info = (\<lambda>t. if t = ''XYZ''
                     then [(''shortName'', PStr ''Xyz''), (''marketCap'', PInt 1000),
                           (''sector'', PInt 7)]
                     else []),
      yf_history = (\<lambda>t p. if t = ''XYZ''
                     then [demo_bar 2 0 (21 / 2), demo_bar 3 0 11, demo_bar 3 16 (23 / 2)]
                     else [])\<rparr>"

definition demo_engine :: sqlite where
  "demo_engine = \<lparr>real_text = (\<lambda>r. ''0.0''), text_real = (\<lambda>s. None)\<rparr>"

definition demo_dumps :: "dict \<Rightarrow> error + string" where
  "demo_dumps d = Inr (concat (map fst d))"

definition demo_files :: "string \<Rightarrow> store_file option" where
  "demo_files path =
     (if path = ''stock_data.db'' then Some (Store demo_store)
      else if path = ''empty.db'' then Some No_Tables
      else None)"





section \<open>Binding and the nearest double\<close>

lemma executemany_prices_foldl:
  "executemany_prices tbl qs = foldl insert_price tbl (map excluded_price qs)"
  by (simp add: executemany_prices_def foldl_map)

lemma bit_length_le: "n < 2 ^ k \<Longrightarrow> bit_length n \<le> k"
proof (induction k arbitrary: n)
  case 0
  then show ?case by (simp add: bit_length.simps)
next
  case (Suc k)
  show ?case
  proof (cases "n = 0")
    case True
    then show ?thesis by (simp add: bit_length.simps)
  next
    case False
    from Suc.prems have "n div 2 < 2 ^ k" by simp
    then have "bit_length (n div 2) \<le> k" by (rule Suc.IH)
    with False show ?thesis by (subst bit_length.simps) simp
  qed
qed

lemma nearest_double_exact: "n < 2 ^ 53 \<Longrightarrow> nearest_double n = n"
  using bit_length_le [of n 53] by (simp add: nearest_double_def Let_def)

lemma bit_length_eq: "2 ^ k \<le> n \<Longrightarrow> n < 2 ^ Suc k \<Longrightarrow> bit_length n = Suc k"
proof (induction k arbitrary: n)
  case 0
  then have "n = 1" by simp
  then show ?case by (simp add: bit_length.simps [of "Suc 0"] bit_length.simps [of 0])
next
  case (Suc k)
  from Suc.prems have "2 ^ k \<le> n div 2" "n div 2 < 2 ^ Suc k" by simp_all
  then have "bit_length (n div 2) = Suc k" by (rule Suc.IH)
  moreover have "n \<noteq> 0"
  proof
    assume "n = 0"
    with Suc.prems(1) have "(2::nat) ^ Suc k \<le> 0" by simp
    then show False by simp
  qed
  ultimately show ?case by (subst bit_length.simps) simp
qed

lemma nearest_double_2_53: "nearest_double 9007199254740992 = 9007199254740992"
proof -
  have "bit_length 9007199254740992 = Suc 53"
    by (rule bit_length_eq) simp_all
  then show ?thesis by (simp add: nearest_double_def)
qed


lemma sint_example: "sint (100 :: 64 word) = 100" "sint (9007199254740993 :: 64 word) = 9007199254740993"
  by simp_all

lemma int_to_real_exact:
  assumes "- (2 ^ 53) \<le> i" and "i \<le> 2 ^ 53"
  shows "int_to_real i = of_int i"
proof -
  have nat_case: "nearest_double n = n" if "n \<le> 2 ^ 53" for n
  proof (cases "n = 2 ^ 53")
    case True
    then have "n = 9007199254740992" by simp
    then show ?thesis by (simp only: nearest_double_2_53)
  next
    case False
    with that have "n < 2 ^ 53" by simp
    then show ?thesis by (rule nearest_double_exact)
  qed
  show ?thesis
  proof (cases "i < 0")
    case True
    with assms(1) have "nat (- i) \<le> 2 ^ 53" by simp
    from nat_case [OF this] True show ?thesis by (simp add: int_to_real_def)
  next
    case False
    with assms(2) have "nat i \<le> 2 ^ 53" by simp
    from nat_case [OF this] False show ?thesis by (simp add: int_to_real_def)
  qed
qed


lemma bind_params_length: "bind_params vs = Inr xs \<Longrightarrow> length xs = length vs"
  by (induction vs arbitrary: xs) (auto split: sum.splits)

lemma bind_params_nth:
  "bind_params vs = Inr xs \<Longrightarrow> n < length vs \<Longrightarrow> bind_param (vs ! n) = Inr (xs ! n)"
proof (induction vs arbitrary: xs n)
  case Nil
  then show ?case by simp
next
  case (Cons v vs)
  from Cons.prems(1) obtain y ys where y: "bind_param v = Inr y" and ys: "bind_params vs = Inr ys"
    and xs: "xs = y # ys"
    by (auto split: sum.splits)
  show ?case
  proof (cases n)
    case 0
    with y xs show ?thesis by simp
  next
    case (Suc m)
    with Cons.prems(2) have "m < length vs" by simp
    from Cons.IH [OF ys this] Suc xs show ?thesis by simp
  qed
qed

lemma bind_params_all:
  "(\<forall>v\<in>set vs. \<exists>x. bind_param v = Inr x) \<Longrightarrow> \<exists>xs. bind_params vs = Inr xs"
  by (induction vs) (auto split: sum.splits)

lemma bind_params_error:
  "bind_param (vs ! n) = Inl e \<Longrightarrow> n < length vs \<Longrightarrow> \<exists>e'. bind_params vs = Inl e'"
proof (induction vs arbitrary: n)
  case Nil
  then show ?case by simp
next
  case (Cons v vs)
  show ?case
  proof (cases n)
    case 0
    with Cons.prems show ?thesis by simp
  next
    case (Suc m)
    with Cons.prems have "bind_param (vs ! m) = Inl e" "m < length vs" by simp_all
    from Cons.IH [OF this] show ?thesis by (auto split: sum.splits)
  qed
qed

section \<open>The price upsert, one tuple and many\<close>

lemma price_key_update:
  "price_key (old\<lparr>p_open := a, p_high := b, p_low := c, p_close := d, p_adj_close := e,
      p_volume := f, p_dividends := g, p_stock_splits := h\<rparr>) = price_key old"
  by (simp add: price_key_def)


lemma price_conflict_iff:
  "list_ex (\<lambda>old. price_key old = price_key new) tbl \<longleftrightarrow>
     price_key new \<in> set (map price_key tbl)"
  by (induction tbl) auto

lemma keys_insert_price:
  "map price_key (insert_price tbl new) =
     (if price_key new \<in> set (map price_key tbl) then map price_key tbl
      else map price_key tbl @ [price_key new])"
  by (simp add: insert_price_def price_conflict_iff price_key_update o_def if_distrib
      cong: if_cong)

lemma keys_executemany:
  "set (map price_key (foldl insert_price tbl rows)) =
     set (map price_key tbl) \<union> set (map price_key rows)"
proof (induction rows arbitrary: tbl)
  case Nil
  show ?case by simp
next
  case (Cons r rows)
  have "set (map price_key (insert_price tbl r)) = insert (price_key r) (set (map price_key tbl))"
    by (auto simp: keys_insert_price)
  with Cons.IH [of "insert_price tbl r"] show ?case by auto
qed

lemma pk_insert_price: "pk_prices tbl \<Longrightarrow> pk_prices (insert_price tbl new)"
  by (simp add: pk_prices_def keys_insert_price)

lemma pk_executemany: "pk_prices tbl \<Longrightarrow> pk_prices (foldl insert_price tbl rows)"
  by (induction rows arbitrary: tbl) (simp_all add: pk_insert_price)

lemma length_insert_price:
  "length (insert_price tbl new) =
     (if price_key new \<in> set (map price_key tbl) then length tbl else Suc (length tbl))"
  by (simp add: insert_price_def price_conflict_iff)

lemma length_executemany_known:
  "set (map price_key rows) \<subseteq> set (map price_key tbl) \<Longrightarrow>
   length (foldl insert_price tbl rows) = length tbl"
proof (induction rows arbitrary: tbl)
  case Nil
  show ?case by simp
next
  case (Cons r rows)
  from Cons.prems have in_tbl: "price_key r \<in> set (map price_key tbl)" by simp
  then have same: "map price_key (insert_price tbl r) = map price_key tbl"
    by (simp add: keys_insert_price)
  from Cons.prems have "set (map price_key rows) \<subseteq> set (map price_key (insert_price tbl r))"
    by (simp add: same)
  from Cons.IH [OF this] in_tbl show ?case by (simp add: length_insert_price)
qed




lemma insert_price_frame:
  "filter (\<lambda>r. p_ticker r \<noteq> p_ticker new) (insert_price tbl new) =
   filter (\<lambda>r. p_ticker r \<noteq> p_ticker new) tbl"
proof -
  have "filter (\<lambda>r. p_ticker r \<noteq> p_ticker new)
          (map (\<lambda>old. if price_key old = price_key new
                  then old\<lparr>p_open := p_open new, p_high := p_high new, p_low := p_low new,
                           p_close := p_close new, p_adj_close := p_adj_close new,
                           p_volume := p_volume new, p_dividends := p_dividends new,
                           p_stock_splits := p_stock_splits new\<rparr>
                  else old) tbl) =
        filter (\<lambda>r. p_ticker r \<noteq> p_ticker new) tbl"
    by (induction tbl) (auto simp: price_key_def)
  then show ?thesis by (simp add: insert_price_def)
qed

section \<open>The metadata upsert\<close>

lemma info_conflict_iff:
  "list_ex (\<lambda>old. i_ticker old = i_ticker new) tbl \<longleftrightarrow>
     i_ticker new \<in> set (map i_ticker tbl)"
  by (induction tbl) auto

lemma tickers_insert_info:
  "map i_ticker (insert_info now tbl new) =
     (if i_ticker new \<in> set (map i_ticker tbl) then map i_ticker tbl
      else map i_ticker tbl @ [i_ticker new])"
  by (simp add: insert_info_def info_conflict_iff o_def if_distrib cong: if_cong)

lemma pk_insert_info: "pk_info tbl \<Longrightarrow> pk_info (insert_info now tbl new)"
  by (simp add: pk_info_def tickers_insert_info)

lemma info_row_overwritten:
  "i_ticker old = i_ticker new \<Longrightarrow> i_updated_at new = VText now \<Longrightarrow>
   (old::info_row)\<lparr>i_short_name := i_short_name new, i_long_name := i_long_name new,
       i_quote_type := i_quote_type new, i_currency := i_currency new,
       i_exchange := i_exchange new, i_market_cap := i_market_cap new,
       i_sector := i_sector new, i_industry := i_industry new,
       i_country := i_country new, i_website := i_website new,
       i_raw_info_json := i_raw_info_json new,
       i_updated_at := VText now\<rparr> = new"
  by (cases old, cases new) simp

lemma insert_info_same_ticker:
  "r \<in> set (insert_info now tbl new) \<Longrightarrow> i_ticker r = i_ticker new \<Longrightarrow>
   i_updated_at new = VText now \<Longrightarrow> r = new"
  by (auto simp: insert_info_def list_ex_iff info_row_overwritten split: if_splits)

lemma insert_info_present:
  "i_ticker new \<in> set (map i_ticker (insert_info now tbl new))"
  by (simp add: tickers_insert_info)

lemma insert_info_frame:
  "filter (\<lambda>r. i_ticker r \<noteq> i_ticker new) (insert_info now tbl new) =
   filter (\<lambda>r. i_ticker r \<noteq> i_ticker new) tbl"
proof -
  have "filter (\<lambda>r. i_ticker r \<noteq> i_ticker new)
          (map (\<lambda>old. if i_ticker old = i_ticker new
                  then old\<lparr>i_short_name := i_short_name new, i_long_name := i_long_name new,
                           i_quote_type := i_quote_type new, i_currency := i_currency new,
                           i_exchange := i_exchange new, i_market_cap := i_market_cap new,
                           i_sector := i_sector new, i_industry := i_industry new,
                           i_country := i_country new, i_website := i_website new,
                           i_raw_info_json := i_raw_info_json new,
                           i_updated_at := VText now\<rparr>
                  else old) tbl) =
        filter (\<lambda>r. i_ticker r \<noteq> i_ticker new) tbl"
    by (induction tbl) auto
  then show ?thesis by (simp add: insert_info_def)
qed

text \<open>In a list with distinct keys, the rows under the key of a member are that member.\<close>

lemma filter_key_distinct:
  "distinct (map f xs) \<Longrightarrow> x \<in> set xs \<Longrightarrow> filter (\<lambda>y. f y = f x) xs = [x]"
proof (induction xs)
  case Nil
  then show ?case by simp
next
  case (Cons a xs)
  show ?case
  proof (cases "a = x")
    case True
    from Cons.prems(1) have "f a \<notin> f ` set xs" by simp
    then have "\<forall>y\<in>set xs. f y \<noteq> f a" by (metis imageI)
    then have "filter (\<lambda>y. f y = f a) xs = []" by (simp add: filter_empty_conv)
    with True show ?thesis by simp
  next
    case False
    with Cons.prems have "x \<in> set xs" and "f a \<noteq> f x" by auto
    moreover from Cons.prems(1) have "distinct (map f xs)" by simp
    ultimately show ?thesis using Cons.IH by simp
  qed
qed

lemma upsert_info_row:
  assumes "pk_info tbl" and "i_updated_at new = VText now"
  shows "filter (\<lambda>r. i_ticker r = i_ticker new) (insert_info now tbl new) = [new]"
proof -
  from insert_info_present [of new now tbl]
  obtain r where r: "r \<in> set (insert_info now tbl new)" "i_ticker r = i_ticker new"
    by auto
  with assms(2) have "r = new" by (metis insert_info_same_ticker)
  with r have "new \<in> set (insert_info now tbl new)" by simp
  moreover from assms(1) have "distinct (map i_ticker (insert_info now tbl new))"
    using pk_insert_info by (simp add: pk_info_def)
  ultimately show ?thesis by (rule filter_key_distinct [rotated])
qed

section \<open>The form of a stored date\<close>

lemma dec_1: "n < 10 \<Longrightarrow> dec n = [digit_char n]"
  by (subst dec.simps) simp

lemma dec_step: "10 \<le> n \<Longrightarrow> dec n = dec (n div 10) @ [digit_char (n mod 10)]"
  by (subst dec.simps) simp

lemma dec_2: "10 \<le> n \<Longrightarrow> n < 100 \<Longrightarrow> dec n = [digit_char (n div 10), digit_char (n mod 10)]"
  by (simp add: dec_step dec_1)

lemma dec_3:
  "100 \<le> n \<Longrightarrow> n < 1000 \<Longrightarrow>
   dec n = [digit_char (n div 100), digit_char (n div 10 mod 10), digit_char (n mod 10)]"
  by (simp add: dec_step [of n] dec_2 div_mult2_eq [symmetric])

lemma dec_4:
  "1000 \<le> n \<Longrightarrow> n < 10000 \<Longrightarrow>
   dec n = [digit_char (n div 1000), digit_char (n div 100 mod 10),
            digit_char (n div 10 mod 10), digit_char (n mod 10)]"
  by (simp add: dec_step [of n] dec_3 div_mult2_eq [symmetric])

lemma digit_char_0: "digit_char 0 = CHR ''0''"
  by (simp add: digit_char_def)

lemma replicate_small:
  "replicate 1 x = [x]" "replicate 2 x = [x, x]" "replicate 3 x = [x, x, x]"
  by (simp_all add: numeral_2_eq_2 numeral_3_eq_3)

lemma zero_pad_2:
  assumes "n < 100"
  shows "zero_pad 2 n = [digit_char (n div 10), digit_char (n mod 10)]"
proof (cases "n < 10")
  case True
  then show ?thesis by (simp add: zero_pad_def dec_1 digit_char_0)
next
  case False
  with assms show ?thesis by (simp add: zero_pad_def dec_2)
qed

lemma zero_pad_4:
  assumes "n < 10000"
  shows "zero_pad 4 n = [digit_char (n div 1000), digit_char (n div 100 mod 10),
                         digit_char (n div 10 mod 10), digit_char (n mod 10)]"
proof -
  consider "n < 10" | "10 \<le> n" "n < 100" | "100 \<le> n" "n < 1000" | "1000 \<le> n"
    by linarith
  then show ?thesis
  proof cases
    case 1
    then show ?thesis by (simp add: zero_pad_def dec_1 digit_char_0 replicate_small)
  next
    case 2
    then show ?thesis by (simp add: zero_pad_def dec_2 digit_char_0 replicate_small)
  next
    case 3
    then show ?thesis by (simp add: zero_pad_def dec_3 digit_char_0 replicate_small)
  next
    case 4
    with assms show ?thesis by (simp add: zero_pad_def dec_4)
  qed
qed

lemma normalize_date_form:
  assumes "year ts < 10000" "month ts < 100" "day ts < 100"
  shows "normalize_date ts =
    [digit_char (year ts div 1000), digit_char (year ts div 100 mod 10),
     digit_char (year ts div 10 mod 10), digit_char (year ts mod 10), CHR ''-'',
     digit_char (month ts div 10), digit_char (month ts mod 10), CHR ''-'',
     digit_char (day ts div 10), digit_char (day ts mod 10)]"
  using assms by (simp add: normalize_date_def date_str_def dt_date_def zero_pad_2 zero_pad_4)

lemma digit_is_digit: "d < 10 \<Longrightarrow> digit_char d \<in> set ''0123456789''"
  unfolding digit_char_def by (rule nth_mem) simp

section \<open>The aggregates of the reporter\<close>









section \<open>The value written for a bar\<close>

lemma price_key_tuple:
  "price_key (excluded_price (price_tuple ticker b)) = (ticker, normalize_date (stamp b))"
  by (simp add: price_key_def price_tuple_def excluded_price_def)

lemma excluded_price_ticker: "p_ticker (excluded_price (price_tuple ticker b)) = ticker"
  by (simp add: price_tuple_def excluded_price_def)

lemma upsert_price_history_run:
  "yf_history yf ticker period \<noteq> [] \<Longrightarrow>
   upsert_price_history yf conn ticker period =
     (conn\<lparr>ticker_prices := foldl insert_price (ticker_prices conn)
         (map (\<lambda>b. excluded_price (price_tuple ticker b)) (yf_history yf ticker period))\<rparr>,
      length (yf_history yf ticker period))"
  by (simp add: upsert_price_history_def executemany_prices_foldl Let_def o_def)

lemma upsert_ticker_info_cases:
  obtains e where "upsert_ticker_info eng json_dumps now conn ticker info = (Inl e, conn)"
  | conn1 where "upsert_ticker_info eng json_dumps now conn ticker info = (Inr (), conn1)"
      and "ticker_prices conn1 = ticker_prices conn"
proof (cases "json_dumps info")
  case (Inl e)
  then have "upsert_ticker_info eng json_dumps now conn ticker info = (Inl e, conn)"
    by (simp add: upsert_ticker_info_def)
  then show ?thesis by (rule that(1))
next
  case (Inr raw)
  show ?thesis
  proof (cases "bind_params (info_params ticker info raw)")
    case (Inl e)
    with Inr have "upsert_ticker_info eng json_dumps now conn ticker info = (Inl e, conn)"
      by (simp add: upsert_ticker_info_def)
    then show ?thesis by (rule that(1))
  next
    case (Inr xs)
    with \<open>json_dumps info = Inr raw\<close>
    have "upsert_ticker_info eng json_dumps now conn ticker info =
        (Inr (), conn\<lparr>ticker_info :=
           insert_info now (ticker_info conn) (excluded_info eng now ticker xs)\<rparr>)"
      by (simp add: upsert_ticker_info_def)
    then show ?thesis by (rule that(2)) simp
  qed
qed

section \<open>Empty history\<close>

text \<open>
  C6. When the provider's history call returns zero rows, \<^verbatim>\<open>upsert_price_history\<close>
  returns the count 0 and the connection exactly as it received it: nothing is written
  and \<^verbatim>\<open>ticker_prices\<close> is unchanged. In a run of either fetch script whose metadata
  merge has succeeded, the script goes on to print its success line with the count 0,
  so the outcome is not an error; and whatever the run does, it leaves
  \<^verbatim>\<open>ticker_prices\<close> as it was.
\<close>

theorem empty_history_no_write:
  assumes "yf_history yf ticker period = []"
  shows "upsert_price_history yf conn ticker period = (conn, 0)
    \<and> ticker_prices (fst (upsert_price_history yf conn ticker period)) = ticker_prices conn
    \<and> (yf_info yf ticker \<noteq> []
       \<and> fst (upsert_ticker_info eng json_dumps now conn ticker (yf_info yf ticker)) = Inr () \<longrightarrow>
         fst (add_main eng yf json_dumps now conn ticker period) = Inr (Upserted ticker 0)
       \<and> fst (icolcap_main eng yf json_dumps now conn ticker period) = Inr (Saved ticker 0))
    \<and> ticker_prices (snd (add_main eng yf json_dumps now conn ticker period)) = ticker_prices conn
    \<and> ticker_prices (snd (icolcap_main eng yf json_dumps now conn ticker period)) =
        ticker_prices conn"
proof -
  from assms have run: "upsert_price_history yf c ticker period = (c, 0)" for c
    by (simp add: upsert_price_history_def)
  have mains: "(yf_info yf ticker \<noteq> []
       \<and> fst (upsert_ticker_info eng json_dumps now conn ticker (yf_info yf ticker)) = Inr () \<longrightarrow>
         fst (add_main eng yf json_dumps now conn ticker period) = Inr (Upserted ticker 0)
       \<and> fst (icolcap_main eng yf json_dumps now conn ticker period) = Inr (Saved ticker 0))
    \<and> ticker_prices (snd (add_main eng yf json_dumps now conn ticker period)) = ticker_prices conn
    \<and> ticker_prices (snd (icolcap_main eng yf json_dumps now conn ticker period)) =
        ticker_prices conn"
  proof (cases "yf_info yf ticker = []")
    case True
    then show ?thesis
      by (simp add: add_main_def icolcap_main_def fetch_info_def fetch_ticker_info_def
          create_tables_def)
  next
    case False
    show ?thesis
    proof (cases rule: upsert_ticker_info_cases [of eng json_dumps now conn ticker "yf_info yf ticker"])
      case (1 e)
      with False show ?thesis
        by (simp add: add_main_def icolcap_main_def fetch_info_def fetch_ticker_info_def
            create_tables_def)
    next
      case (2 conn1)
      with False run [of conn1] show ?thesis
        by (simp add: add_main_def icolcap_main_def fetch_info_def fetch_ticker_info_def
            create_tables_def)
    qed
  qed
  from run [of conn] mains show ?thesis by simp
qed

text \<open>
  The theorem at a provider with no history for the ticker.
\<close>

theorem empty_history_no_write_witness:
  "yf_history demo_yf ''ABC'' ''max'' = []
   \<and> upsert_price_history demo_yf demo_store ''ABC'' ''max'' = (demo_store, 0)
   \<and> yf_history (demo_yf\<lparr>yf_history := \<lambda>t p. []\<rparr>) ''XYZ'' ''max'' = []
   \<and> fst (add_main demo_engine (demo_yf\<lparr>yf_history := \<lambda>t p. []\<rparr>) demo_dumps
            ''2024-02-01 10:00:00'' demo_store ''XYZ'' ''max'') = Inr (Upserted ''XYZ'' 0)"
proof -
  have h1: "yf_history demo_yf ''ABC'' ''max'' = []"
    by (simp add: demo_yf_def)
  have h2: "yf_history (demo_yf\<lparr>yf_history := \<lambda>t p. []\<rparr>) ''XYZ'' ''max'' = []"
    by simp
  have h3: "yf_info (demo_yf\<lparr>yf_history := \<lambda>t p. []\<rparr>) ''XYZ'' \<noteq> []"
    by (simp add: demo_yf_def)
  have h4: "fst (upsert_ticker_info demo_engine demo_dumps ''2024-02-01 10:00:00'' demo_store
      ''XYZ'' (yf_info (demo_yf\<lparr>yf_history := \<lambda>t p. []\<rparr>) ''XYZ'')) = Inr ()"
    by (simp add: upsert_ticker_info_def demo_dumps_def demo_yf_def info_params_def
        dict_get_def bind_param_def)
  from empty_history_no_write [OF h1, of demo_store]
  have "upsert_price_history demo_yf demo_store ''ABC'' ''max'' = (demo_store, 0)"
    by (rule conjunct1)
  moreover from empty_history_no_write [OF h2, of demo_store demo_engine demo_dumps
      "''2024-02-01 10:00:00''"] h3 h4
  have "fst (add_main demo_engine (demo_yf\<lparr>yf_history := \<lambda>t p. []\<rparr>) demo_dumps
            ''2024-02-01 10:00:00'' demo_store ''XYZ'' ''max'') = Inr (Upserted ''XYZ'' 0)"
    by blast
  ultimately show ?thesis using h1 h2 by blast
qed

section \<open>Idempotence of the price merge\<close>

text \<open>
  C1. On a store that satisfies the primary key of \<^verbatim>\<open>ticker_prices\<close>, running
  \<^verbatim>\<open>upsert_price_history\<close> twice for the same ticker against the same provider data
  leaves no two rows with the same (ticker, date) after either run, and the second run
  leaves the row count of the first. The fetched history may be empty or not.
\<close>

theorem price_merge_idempotent:
  assumes "pk_prices (ticker_prices conn)"
  shows "let run1 = fst (upsert_price_history yf conn ticker period);
             run2 = fst (upsert_price_history yf run1 ticker period)
         in pk_prices (ticker_prices run1) \<and> pk_prices (ticker_prices run2)
            \<and> length (ticker_prices run2) = length (ticker_prices run1)"
proof (cases "yf_history yf ticker period = []")
  case True
  with assms show ?thesis by (simp add: upsert_price_history_def)
next
  case False
  define rows where
    "rows = map (\<lambda>b. excluded_price (price_tuple ticker b)) (yf_history yf ticker period)"
  define t1 where "t1 = foldl insert_price (ticker_prices conn) rows"
  define t2 where "t2 = foldl insert_price t1 rows"
  have pk1: "pk_prices t1"
    unfolding t1_def using assms by (rule pk_executemany)
  then have pk2: "pk_prices t2"
    unfolding t2_def by (rule pk_executemany)
  have "set (map price_key rows) \<subseteq> set (map price_key t1)"
    unfolding t1_def keys_executemany by simp
  then have len: "length t2 = length t1"
    unfolding t2_def by (rule length_executemany_known)
  from pk1 pk2 len show ?thesis
    by (simp add: upsert_price_history_run [OF False] Let_def rows_def t1_def t2_def)
qed

text \<open>
  The theorem on the example store: one row is added by the first run, none by the second.
\<close>

theorem price_merge_idempotent_witness:
  "pk_prices (ticker_prices demo_store)
   \<and> length (ticker_prices (fst (upsert_price_history demo_yf demo_store ''XYZ'' ''max''))) = 3
   \<and> length (ticker_prices (fst (upsert_price_history demo_yf
        (fst (upsert_price_history demo_yf demo_store ''XYZ'' ''max'')) ''XYZ'' ''max''))) = 3
   \<and> pk_prices (ticker_prices (fst (upsert_price_history demo_yf
        (fst (upsert_price_history demo_yf demo_store ''XYZ'' ''max'')) ''XYZ'' ''max'')))"
proof -
  have h: "pk_prices (ticker_prices demo_store)"
    by code_simp
  have l1: "length (ticker_prices (fst (upsert_price_history demo_yf demo_store ''XYZ'' ''max''))) = 3"
    by code_simp
  from price_merge_idempotent [OF h, of demo_yf "''XYZ''" "''max''"] h l1
  show ?thesis by (simp add: Let_def)
qed

section \<open>The returned count\<close>



section \<open>Duplicate keys inside one batch\<close>

lemma executemany_frame:
  "\<forall>r\<in>set rows. p_ticker r = t \<Longrightarrow>
   filter (\<lambda>r. p_ticker r \<noteq> t) (foldl insert_price tbl rows) =
   filter (\<lambda>r. p_ticker r \<noteq> t) tbl"
proof (induction rows arbitrary: tbl)
  case Nil
  show ?case by simp
next
  case (Cons r rows)
  from Cons.prems have t: "p_ticker r = t" and rest: "\<forall>x\<in>set rows. p_ticker x = t"
    by simp_all
  have "filter (\<lambda>r. p_ticker r \<noteq> t) (foldl insert_price (insert_price tbl r) rows) =
        filter (\<lambda>r. p_ticker r \<noteq> t) (insert_price tbl r)"
    using rest by (rule Cons.IH)
  also have "\<dots> = filter (\<lambda>r. p_ticker r \<noteq> t) tbl"
    using insert_price_frame [of r tbl] t by simp
  finally show ?case by simp
qed





section \<open>What the upserts leave alone\<close>

text \<open>
  C10. \<^verbatim>\<open>upsert_price_history\<close> leaves table \<^verbatim>\<open>ticker_info\<close> as it is and
  \<^verbatim>\<open>upsert_ticker_info\<close>, whether it returns or raises, leaves table
  \<^verbatim>\<open>ticker_prices\<close> as it is; and in the table each of them writes, the rows of every
  other ticker are the same rows, in the same order, before and after.
\<close>

theorem upserts_frame:
  "ticker_info (fst (upsert_price_history yf conn ticker period)) = ticker_info conn
   \<and> ticker_prices (snd (upsert_ticker_info eng json_dumps now conn ticker info)) =
       ticker_prices conn
   \<and> filter (\<lambda>r. p_ticker r \<noteq> ticker)
        (ticker_prices (fst (upsert_price_history yf conn ticker period))) =
      filter (\<lambda>r. p_ticker r \<noteq> ticker) (ticker_prices conn)
   \<and> filter (\<lambda>r. i_ticker r \<noteq> ticker)
        (ticker_info (snd (upsert_ticker_info eng json_dumps now conn ticker info))) =
      filter (\<lambda>r. i_ticker r \<noteq> ticker) (ticker_info conn)"
proof -
  have a: "ticker_info (fst (upsert_price_history yf conn ticker period)) = ticker_info conn"
    by (simp add: upsert_price_history_def Let_def)
  have b: "ticker_prices (snd (upsert_ticker_info eng json_dumps now conn ticker info)) =
       ticker_prices conn"
    by (cases rule: upsert_ticker_info_cases [of eng json_dumps now conn ticker info]) simp_all
  have "\<forall>r\<in>set (map (\<lambda>b. excluded_price (price_tuple ticker b)) (yf_history yf ticker period)).
      p_ticker r = ticker"
    by (simp add: excluded_price_ticker)
  then have c: "filter (\<lambda>r. p_ticker r \<noteq> ticker)
        (ticker_prices (fst (upsert_price_history yf conn ticker period))) =
      filter (\<lambda>r. p_ticker r \<noteq> ticker) (ticker_prices conn)"
    by (cases "yf_history yf ticker period = []")
      (simp_all add: upsert_price_history_run executemany_frame,
       simp add: upsert_price_history_def)
  have d: "filter (\<lambda>r. i_ticker r \<noteq> ticker)
        (ticker_info (snd (upsert_ticker_info eng json_dumps now conn ticker info))) =
      filter (\<lambda>r. i_ticker r \<noteq> ticker) (ticker_info conn)"
  proof (cases "json_dumps info")
    case (Inl e)
    then show ?thesis by (simp add: upsert_ticker_info_def)
  next
    case (Inr raw)
    show ?thesis
    proof (cases "bind_params (info_params ticker info raw)")
      case (Inl e)
      with Inr show ?thesis by (simp add: upsert_ticker_info_def)
    next
      case (Inr xs)
      have "i_ticker (excluded_info eng now ticker xs) = ticker"
        by (simp add: excluded_info_def)
      with insert_info_frame [of "excluded_info eng now ticker xs" now "ticker_info conn"]
      have "filter (\<lambda>r. i_ticker r \<noteq> ticker)
          (insert_info now (ticker_info conn) (excluded_info eng now ticker xs)) =
        filter (\<lambda>r. i_ticker r \<noteq> ticker) (ticker_info conn)"
        by simp
      with Inr \<open>json_dumps info = Inr raw\<close> show ?thesis
        by (simp add: upsert_ticker_info_def)
    qed
  qed
  from a b c d show ?thesis by blast
qed

text \<open>
  The theorem on the example store: the rows of ticker ABC stay as they were.
\<close>

theorem upserts_frame_witness:
  "filter (\<lambda>r. p_ticker r \<noteq> ''XYZ'')
        (ticker_prices (fst (upsert_price_history demo_yf demo_store ''XYZ'' ''max''))) =
      [demo_price ''ABC'' ''2024-01-03'' 5]
   \<and> filter (\<lambda>r. i_ticker r \<noteq> ''XYZ'')
        (ticker_info (snd (upsert_ticker_info demo_engine demo_dumps ''2024-02-01 10:00:00''
           demo_store ''XYZ'' (yf_info demo_yf ''XYZ'')))) =
      [demo_info_row ''ABC'' ''Abc'']"
proof -
  have p: "filter (\<lambda>r. p_ticker r \<noteq> ''XYZ'') (ticker_prices demo_store) =
      [demo_price ''ABC'' ''2024-01-03'' 5]"
    by (simp add: demo_store_def demo_price_def)
  have i: "filter (\<lambda>r. i_ticker r \<noteq> ''XYZ'') (ticker_info demo_store) =
      [demo_info_row ''ABC'' ''Abc'']"
    by (simp add: demo_store_def demo_info_row_def)
  from upserts_frame [of demo_yf demo_store "''XYZ''" "''max''" demo_engine demo_dumps
      "''2024-02-01 10:00:00''" "yf_info demo_yf ''XYZ''"] p i
  show ?thesis by simp
qed

section \<open>The metadata merge replaces the whole row\<close>

lemma bindable_iff: "bindable v \<longleftrightarrow> (\<exists>x. bind_param v = Inr x)"
  by (cases v) (simp_all add: bindable_def bind_param_def)

lemma bound_as_text: "bind_param v = Inr x \<Longrightarrow> text_affinity eng x = held_as_text eng v"
  by (cases v) (auto simp: bind_param_def text_affinity_def held_as_text_def split: if_splits)

lemma bound_as_real: "bind_param v = Inr x \<Longrightarrow> real_affinity eng x = held_as_real eng v"
  by (cases v) (auto simp: bind_param_def real_affinity_def held_as_real_def split: if_splits)

lemma bind_params_refused:
  "v \<in> set vs \<Longrightarrow> \<not> bindable v \<Longrightarrow> \<exists>e. bind_params vs = Inl e"
proof -
  assume "v \<in> set vs" and "\<not> bindable v"
  then obtain n where n: "n < length vs" "vs ! n = v"
    by (auto simp: in_set_conv_nth)
  from \<open>\<not> bindable v\<close> obtain e where "bind_param v = Inl e"
    by (cases "bind_param v") (auto simp: bindable_iff)
  with n have "bind_param (vs ! n) = Inl e" by simp
  from bind_params_error [OF this n(1)] show ?thesis .
qed

lemma info_params_bound:
  assumes "\<forall>k\<in>set [''shortName'', ''longName'', ''quoteType'', ''currency'', ''exchange'',
             ''marketCap'', ''sector'', ''industry'', ''country'', ''website''].
             bindable (dict_get info k)"
  obtains xs where "bind_params (info_params ticker info raw) = Inr xs"
    and "excluded_info eng clock ticker xs =
      \<lparr>i_ticker = ticker,
       i_short_name = held_as_text eng (dict_get info ''shortName''),
       i_long_name = held_as_text eng (dict_get info ''longName''),
       i_quote_type = held_as_text eng (dict_get info ''quoteType''),
       i_currency = held_as_text eng (dict_get info ''currency''),
       i_exchange = held_as_text eng (dict_get info ''exchange''),
       i_market_cap = held_as_real eng (dict_get info ''marketCap''),
       i_sector = held_as_text eng (dict_get info ''sector''),
       i_industry = held_as_text eng (dict_get info ''industry''),
       i_country = held_as_text eng (dict_get info ''country''),
       i_website = held_as_text eng (dict_get info ''website''),
       i_raw_info_json = VText raw,
       i_updated_at = VText clock\<rparr>"
proof -
  have "\<forall>v\<in>set (info_params ticker info raw). \<exists>x. bind_param v = Inr x"
    using assms by (simp add: info_params_def bindable_iff) (simp add: bind_param_def)
  from bind_params_all [OF this] obtain xs
    where xs: "bind_params (info_params ticker info raw) = Inr xs" by blast
  have nth: "bind_param (info_params ticker info raw ! n) = Inr (xs ! n)" if "n < 12" for n
    using bind_params_nth [OF xs, of n] that by (simp add: info_params_def)
  have p: "info_params ticker info raw ! 1 = dict_get info ''shortName''"
    "info_params ticker info raw ! 2 = dict_get info ''longName''"
    "info_params ticker info raw ! 3 = dict_get info ''quoteType''"
    "info_params ticker info raw ! 4 = dict_get info ''currency''"
    "info_params ticker info raw ! 5 = dict_get info ''exchange''"
    "info_params ticker info raw ! 6 = dict_get info ''marketCap''"
    "info_params ticker info raw ! 7 = dict_get info ''sector''"
    "info_params ticker info raw ! 8 = dict_get info ''industry''"
    "info_params ticker info raw ! 9 = dict_get info ''country''"
    "info_params ticker info raw ! 10 = dict_get info ''website''"
    "info_params ticker info raw ! 11 = PStr raw"
    by (simp_all add: info_params_def)
  have t: "text_affinity eng (xs ! n) = held_as_text eng (info_params ticker info raw ! n)"
    if "n < 12" for n
    using nth [OF that] by (rule bound_as_text)
  have r: "real_affinity eng (xs ! 6) = held_as_real eng (info_params ticker info raw ! 6)"
    using nth [of 6] by (intro bound_as_real) simp
  have raw_text: "held_as_text eng (PStr raw) = VText raw"
    by (simp add: held_as_text_def)
  have c1: "text_affinity eng (xs ! 1) = held_as_text eng (dict_get info ''shortName'')"
  proof -
    have "bind_param (info_params ticker info raw ! 1) = Inr (xs ! 1)"
      by (rule nth) simp
    then show ?thesis unfolding p by (rule bound_as_text)
  qed
  note cols = t [of 2, unfolded p] t [of 3, unfolded p]
    t [of 4, unfolded p] t [of 5, unfolded p] r [unfolded p] t [of 7, unfolded p]
    t [of 8, unfolded p] t [of 9, unfolded p] t [of 10, unfolded p]
    t [of 11, unfolded p raw_text]
  have "excluded_info eng clock ticker xs =
      \<lparr>i_ticker = ticker,
       i_short_name = held_as_text eng (dict_get info ''shortName''),
       i_long_name = held_as_text eng (dict_get info ''longName''),
       i_quote_type = held_as_text eng (dict_get info ''quoteType''),
       i_currency = held_as_text eng (dict_get info ''currency''),
       i_exchange = held_as_text eng (dict_get info ''exchange''),
       i_market_cap = held_as_real eng (dict_get info ''marketCap''),
       i_sector = held_as_text eng (dict_get info ''sector''),
       i_industry = held_as_text eng (dict_get info ''industry''),
       i_country = held_as_text eng (dict_get info ''country''),
       i_website = held_as_text eng (dict_get info ''website''),
       i_raw_info_json = VText raw,
       i_updated_at = VText clock\<rparr>"
    unfolding excluded_info_def
    by (simp only: c1 cols [simplified])
  with xs show ?thesis by (rule that)
qed

lemma upsert_ticker_info_run:
  assumes "json_dumps info = Inr raw" and "bind_params (info_params ticker info raw) = Inr xs"
  shows "upsert_ticker_info eng json_dumps clock c ticker info =
    (Inr (), c\<lparr>ticker_info := insert_info clock (ticker_info c) (excluded_info eng clock ticker xs)\<rparr>)"
  using assms by (simp add: upsert_ticker_info_def)

text \<open>
  C2, as the code has it. On a store that satisfies the primary key of
  \<^verbatim>\<open>ticker_info\<close>: when \<^verbatim>\<open>json.dumps\<close> returns and each of the ten extracted values is
  one that \<^verbatim>\<open>sqlite3\<close> binds (None, a str, a float, or an int of 64 bits),
  \<^verbatim>\<open>upsert_ticker_info\<close> returns and leaves exactly one row for the ticker. Each of its
  non-key columns is the value extracted from the new mapping as the column holds it
  (in a TEXT column a number as text, in \<^verbatim>\<open>market_cap\<close> an int as the nearest double,
  a missing key and NaN as NULL), \<^verbatim>\<open>raw_info_json\<close> is the serialised mapping and
  \<^verbatim>\<open>updated_at\<close> the clock reading of this run: nothing of the prior state of the
  store appears in the row. A second run with the same mapping gives the same row but
  for \<^verbatim>\<open>updated_at\<close>, which is the clock reading of the second run, and so is later
  than that of the first when the clock reading has advanced. When
  \<^verbatim>\<open>json.dumps\<close> raises, or one of the extracted values is not bound, the call raises
  and the store is as it was.
\<close>

theorem metadata_merge_full_replace:
  assumes "pk_info (ticker_info conn)"
  shows "(json_dumps info = Inr raw
          \<and> (\<forall>k\<in>set [''shortName'', ''longName'', ''quoteType'', ''currency'', ''exchange'',
               ''marketCap'', ''sector'', ''industry'', ''country'', ''website''].
                bindable (dict_get info k)) \<longrightarrow>
            fst (upsert_ticker_info eng json_dumps now conn ticker info) = Inr ()
          \<and> filter (\<lambda>r. i_ticker r = ticker)
               (ticker_info (snd (upsert_ticker_info eng json_dumps now conn ticker info))) =
             [\<lparr>i_ticker = ticker,
           i_short_name = held_as_text eng (dict_get info ''shortName''),
           i_long_name = held_as_text eng (dict_get info ''longName''),
           i_quote_type = held_as_text eng (dict_get info ''quoteType''),
           i_currency = held_as_text eng (dict_get info ''currency''),
           i_exchange = held_as_text eng (dict_get info ''exchange''),
           i_market_cap = held_as_real eng (dict_get info ''marketCap''),
           i_sector = held_as_text eng (dict_get info ''sector''),
           i_industry = held_as_text eng (dict_get info ''industry''),
           i_country = held_as_text eng (dict_get info ''country''),
           i_website = held_as_text eng (dict_get info ''website''),
           i_raw_info_json = VText raw,
           i_updated_at = VText now\<rparr>]
          \<and> filter (\<lambda>r. i_ticker r = ticker)
               (ticker_info (snd (upsert_ticker_info eng json_dumps later
                  (snd (upsert_ticker_info eng json_dumps now conn ticker info)) ticker info))) =
             [\<lparr>i_ticker = ticker,
           i_short_name = held_as_text eng (dict_get info ''shortName''),
           i_long_name = held_as_text eng (dict_get info ''longName''),
           i_quote_type = held_as_text eng (dict_get info ''quoteType''),
           i_currency = held_as_text eng (dict_get info ''currency''),
           i_exchange = held_as_text eng (dict_get info ''exchange''),
           i_market_cap = held_as_real eng (dict_get info ''marketCap''),
           i_sector = held_as_text eng (dict_get info ''sector''),
           i_industry = held_as_text eng (dict_get info ''industry''),
           i_country = held_as_text eng (dict_get info ''country''),
           i_website = held_as_text eng (dict_get info ''website''),
           i_raw_info_json = VText raw,
           i_updated_at = VText later\<rparr>]
          \<and> (now < later \<longrightarrow>
               (\<exists>u1 u2.
                  map i_updated_at (filter (\<lambda>r. i_ticker r = ticker)
                    (ticker_info (snd (upsert_ticker_info eng json_dumps now conn ticker info)))) =
                    [VText u1]
                \<and> map i_updated_at (filter (\<lambda>r. i_ticker r = ticker)
                    (ticker_info (snd (upsert_ticker_info eng json_dumps later
                       (snd (upsert_ticker_info eng json_dumps now conn ticker info))
                       ticker info)))) = [VText u2]
                \<and> u1 < u2)))
       \<and> (json_dumps info = Inl e \<longrightarrow>
            upsert_ticker_info eng json_dumps now conn ticker info = (Inl e, conn))
       \<and> (json_dumps info = Inr raw
          \<and> (\<exists>k\<in>set [''shortName'', ''longName'', ''quoteType'', ''currency'', ''exchange'',
               ''marketCap'', ''sector'', ''industry'', ''country'', ''website''].
                \<not> bindable (dict_get info k)) \<longrightarrow>
            (\<exists>e'. upsert_ticker_info eng json_dumps now conn ticker info = (Inl e', conn)))
       \<and> (\<forall>i. - (2 ^ 53) \<le> i \<and> i \<le> 2 ^ 53 \<longrightarrow> int_to_real i = of_int i)"
proof (intro conjI impI)
  assume ok: "json_dumps info = Inr raw
          \<and> (\<forall>k\<in>set [''shortName'', ''longName'', ''quoteType'', ''currency'', ''exchange'',
               ''marketCap'', ''sector'', ''industry'', ''country'', ''website''].
                bindable (dict_get info k))"
  then have raw: "json_dumps info = Inr raw" and
    keys: "\<forall>k\<in>set [''shortName'', ''longName'', ''quoteType'', ''currency'', ''exchange'',
               ''marketCap'', ''sector'', ''industry'', ''country'', ''website''].
                bindable (dict_get info k)"
    by blast+
  define new where "new = (\<lambda>clock. \<lparr>i_ticker = ticker,
           i_short_name = held_as_text eng (dict_get info ''shortName''),
           i_long_name = held_as_text eng (dict_get info ''longName''),
           i_quote_type = held_as_text eng (dict_get info ''quoteType''),
           i_currency = held_as_text eng (dict_get info ''currency''),
           i_exchange = held_as_text eng (dict_get info ''exchange''),
           i_market_cap = held_as_real eng (dict_get info ''marketCap''),
           i_sector = held_as_text eng (dict_get info ''sector''),
           i_industry = held_as_text eng (dict_get info ''industry''),
           i_country = held_as_text eng (dict_get info ''country''),
           i_website = held_as_text eng (dict_get info ''website''),
           i_raw_info_json = VText raw,
           i_updated_at = VText clock\<rparr>)"
  from info_params_bound [OF keys, of ticker raw eng now] obtain xs
    where xs: "bind_params (info_params ticker info raw) = Inr xs"
      and ex_now: "excluded_info eng now ticker xs = new now"
    unfolding new_def by blast
  from info_params_bound [OF keys, of ticker raw eng later] xs
  have ex_later: "excluded_info eng later ticker xs = new later"
    unfolding new_def by force
  have key: "i_ticker (new clock) = ticker" and at: "i_updated_at (new clock) = VText clock"
    for clock
    by (simp_all add: new_def)
  have run: "upsert_ticker_info eng json_dumps clock c ticker info =
      (Inr (), c\<lparr>ticker_info :=
         insert_info clock (ticker_info c) (excluded_info eng clock ticker xs)\<rparr>)" for clock c
    using raw xs by (rule upsert_ticker_info_run)
  have one: "filter (\<lambda>r. i_ticker r = ticker) (insert_info clock tbl (new clock)) = [new clock]"
    if "pk_info tbl" for clock tbl
    using upsert_info_row [OF that at [of clock]] by (simp add: key)
  show ok1: "fst (upsert_ticker_info eng json_dumps now conn ticker info) = Inr ()"
    by (simp add: run)
  have first: "filter (\<lambda>r. i_ticker r = ticker)
      (ticker_info (snd (upsert_ticker_info eng json_dumps now conn ticker info))) = [new now]"
    using one [OF assms, of now] by (simp add: run ex_now)
  have pk1: "pk_info (ticker_info (snd (upsert_ticker_info eng json_dumps now conn ticker info)))"
    using pk_insert_info [OF assms] by (simp add: run)
  have second: "filter (\<lambda>r. i_ticker r = ticker)
      (ticker_info (snd (upsert_ticker_info eng json_dumps later
         (snd (upsert_ticker_info eng json_dumps now conn ticker info)) ticker info))) =
      [new later]"
    using one [OF pk1, of later] by (simp add: run [of later] ex_later)
  from first show "filter (\<lambda>r. i_ticker r = ticker)
       (ticker_info (snd (upsert_ticker_info eng json_dumps now conn ticker info))) =
     [\<lparr>i_ticker = ticker,
           i_short_name = held_as_text eng (dict_get info ''shortName''),
           i_long_name = held_as_text eng (dict_get info ''longName''),
           i_quote_type = held_as_text eng (dict_get info ''quoteType''),
           i_currency = held_as_text eng (dict_get info ''currency''),
           i_exchange = held_as_text eng (dict_get info ''exchange''),
           i_market_cap = held_as_real eng (dict_get info ''marketCap''),
           i_sector = held_as_text eng (dict_get info ''sector''),
           i_industry = held_as_text eng (dict_get info ''industry''),
           i_country = held_as_text eng (dict_get info ''country''),
           i_website = held_as_text eng (dict_get info ''website''),
           i_raw_info_json = VText raw,
           i_updated_at = VText now\<rparr>]"
    by (simp only: new_def)
  from second show "filter (\<lambda>r. i_ticker r = ticker)
       (ticker_info (snd (upsert_ticker_info eng json_dumps later
          (snd (upsert_ticker_info eng json_dumps now conn ticker info)) ticker info))) =
     [\<lparr>i_ticker = ticker,
           i_short_name = held_as_text eng (dict_get info ''shortName''),
           i_long_name = held_as_text eng (dict_get info ''longName''),
           i_quote_type = held_as_text eng (dict_get info ''quoteType''),
           i_currency = held_as_text eng (dict_get info ''currency''),
           i_exchange = held_as_text eng (dict_get info ''exchange''),
           i_market_cap = held_as_real eng (dict_get info ''marketCap''),
           i_sector = held_as_text eng (dict_get info ''sector''),
           i_industry = held_as_text eng (dict_get info ''industry''),
           i_country = held_as_text eng (dict_get info ''country''),
           i_website = held_as_text eng (dict_get info ''website''),
           i_raw_info_json = VText raw,
           i_updated_at = VText later\<rparr>]"
    by (simp only: new_def)
  assume "now < later"
  with first second at show "\<exists>u1 u2.
        map i_updated_at (filter (\<lambda>r. i_ticker r = ticker)
          (ticker_info (snd (upsert_ticker_info eng json_dumps now conn ticker info)))) =
          [VText u1]
      \<and> map i_updated_at (filter (\<lambda>r. i_ticker r = ticker)
          (ticker_info (snd (upsert_ticker_info eng json_dumps later
             (snd (upsert_ticker_info eng json_dumps now conn ticker info))
             ticker info)))) = [VText u2]
      \<and> u1 < u2"
    by simp
next
  assume "json_dumps info = Inl e"
  then show "upsert_ticker_info eng json_dumps now conn ticker info = (Inl e, conn)"
    by (simp add: upsert_ticker_info_def)
next
  assume bad: "json_dumps info = Inr raw
          \<and> (\<exists>k\<in>set [''shortName'', ''longName'', ''quoteType'', ''currency'', ''exchange'',
               ''marketCap'', ''sector'', ''industry'', ''country'', ''website''].
                \<not> bindable (dict_get info k))"
  then obtain k where k: "k \<in> set [''shortName'', ''longName'', ''quoteType'', ''currency'', ''exchange'',
               ''marketCap'', ''sector'', ''industry'', ''country'', ''website'']"
      and nb: "\<not> bindable (dict_get info k)"
    by blast
  from k have "dict_get info k \<in> set (info_params ticker info raw)"
    by (auto simp: info_params_def)
  from bind_params_refused [OF this nb] obtain e'
    where "bind_params (info_params ticker info raw) = Inl e'" by blast
  with bad have "upsert_ticker_info eng json_dumps now conn ticker info = (Inl e', conn)"
    by (simp add: upsert_ticker_info_def)
  then show "\<exists>e'. upsert_ticker_info eng json_dumps now conn ticker info = (Inl e', conn)"
    by blast
next
  show "\<forall>i. - (2 ^ 53) \<le> i \<and> i \<le> 2 ^ 53 \<longrightarrow> int_to_real i = of_int i"
    by (simp add: int_to_real_exact)
qed

text \<open>
  The theorem on the example store, which holds a stale row for XYZ: its old sector and
  market cap are gone after the merge, the int market cap 1000 is held as a REAL and
  the int sector 7 as the text "7".
\<close>

theorem metadata_merge_full_replace_witness:
  "pk_info (ticker_info demo_store)
   \<and> demo_dumps (yf_info demo_yf ''XYZ'') = Inr ''shortNamemarketCapsector''
   \<and> fst (upsert_ticker_info demo_engine demo_dumps ''2024-02-01 10:00:00'' demo_store ''XYZ''
           (yf_info demo_yf ''XYZ'')) = Inr ()
   \<and> filter (\<lambda>r. i_ticker r = ''XYZ'')
        (ticker_info (snd (upsert_ticker_info demo_engine demo_dumps ''2024-02-01 10:00:00''
           demo_store ''XYZ'' (yf_info demo_yf ''XYZ'')))) =
      [\<lparr>i_ticker = ''XYZ'', i_short_name = VText ''Xyz'', i_long_name = VNull,
        i_quote_type = VNull, i_currency = VNull, i_exchange = VNull,
        i_market_cap = VReal 1000, i_sector = VText ''7'', i_industry = VNull,
        i_country = VNull, i_website = VNull,
        i_raw_info_json = VText ''shortNamemarketCapsector'',
        i_updated_at = VText ''2024-02-01 10:00:00''\<rparr>]"
proof -
  define info where "info = yf_info demo_yf ''XYZ''"
  have info: "info = [(''shortName'', PStr ''Xyz''), (''marketCap'', PInt 1000),
      (''sector'', PInt 7)]"
    by (simp add: info_def demo_yf_def)
  have h1: "pk_info (ticker_info demo_store)"
    by (simp add: pk_info_def demo_store_def demo_info_row_def)
  have h2: "demo_dumps info = Inr ''shortNamemarketCapsector''"
    by (simp add: info demo_dumps_def)
  have h3: "\<forall>k\<in>set [''shortName'', ''longName'', ''quoteType'', ''currency'', ''exchange'',
               ''marketCap'', ''sector'', ''industry'', ''country'', ''website''].
                bindable (dict_get info k)"
    by (simp add: info dict_get_def bindable_def)
  have cap: "held_as_real demo_engine (PInt 1000) = VReal 1000"
    by (simp add: held_as_real_def int_to_real_exact)
  have sector: "held_as_text demo_engine (PInt 7) = VText ''7''"
    by (simp add: held_as_text_def int_text_def dec_1 digit_char_def)
  have gets: "dict_get info ''shortName'' = PStr ''Xyz''" "dict_get info ''longName'' = PNone"
    "dict_get info ''quoteType'' = PNone" "dict_get info ''currency'' = PNone"
    "dict_get info ''exchange'' = PNone" "dict_get info ''marketCap'' = PInt 1000"
    "dict_get info ''sector'' = PInt 7" "dict_get info ''industry'' = PNone"
    "dict_get info ''country'' = PNone" "dict_get info ''website'' = PNone"
    by (simp_all add: info dict_get_def)
  have texts: "held_as_text demo_engine (PStr ''Xyz'') = VText ''Xyz''"
    "held_as_text demo_engine PNone = VNull"
    by (simp_all add: held_as_text_def)
  from metadata_merge_full_replace [OF h1, of demo_dumps info "''shortNamemarketCapsector''"
      demo_engine "''2024-02-01 10:00:00''" "''XYZ''" "''2024-02-01 10:00:05''"] h2 h3
  have "fst (upsert_ticker_info demo_engine demo_dumps ''2024-02-01 10:00:00'' demo_store ''XYZ''
           info) = Inr ()
      \<and> filter (\<lambda>r. i_ticker r = ''XYZ'')
        (ticker_info (snd (upsert_ticker_info demo_engine demo_dumps ''2024-02-01 10:00:00''
           demo_store ''XYZ'' info))) =
      [\<lparr>i_ticker = ''XYZ'',
        i_short_name = held_as_text demo_engine (dict_get info ''shortName''),
        i_long_name = held_as_text demo_engine (dict_get info ''longName''),
        i_quote_type = held_as_text demo_engine (dict_get info ''quoteType''),
        i_currency = held_as_text demo_engine (dict_get info ''currency''),
        i_exchange = held_as_text demo_engine (dict_get info ''exchange''),
        i_market_cap = held_as_real demo_engine (dict_get info ''marketCap''),
        i_sector = held_as_text demo_engine (dict_get info ''sector''),
        i_industry = held_as_text demo_engine (dict_get info ''industry''),
        i_country = held_as_text demo_engine (dict_get info ''country''),
        i_website = held_as_text demo_engine (dict_get info ''website''),
        i_raw_info_json = VText ''shortNamemarketCapsector'',
        i_updated_at = VText ''2024-02-01 10:00:00''\<rparr>]"
    by blast
  then show ?thesis
    unfolding gets texts cap sector using h1 h2 unfolding info_def by blast
qed

text \<open>
  C2 as the specification states it fails for a mapping whose market cap is the int
  \<open>2 ^ 63\<close>: the call raises \<^verbatim>\<open>OverflowError\<close>, and the row of the ticker is still the
  stale one, with the sector of the prior fetch where the new mapping has none.
\<close>

theorem metadata_merge_counterexample:
  "pk_info (ticker_info demo_store)
   \<and> fst (upsert_ticker_info demo_engine demo_dumps ''2024-02-01 10:00:00'' demo_store ''XYZ''
           [(''marketCap'', PInt 9223372036854775808)]) =
       Inl (OverflowError ''Python int too large to convert to SQLite INTEGER'')
   \<and> filter (\<lambda>r. i_ticker r = ''XYZ'')
        (ticker_info (snd (upsert_ticker_info demo_engine demo_dumps ''2024-02-01 10:00:00''
           demo_store ''XYZ'' [(''marketCap'', PInt 9223372036854775808)]))) =
       [demo_info_row ''XYZ'' ''Stale'']
   \<and> i_sector (demo_info_row ''XYZ'' ''Stale'') = VText ''Old sector''
   \<and> dict_get [(''marketCap'', PInt 9223372036854775808)] ''sector'' = PNone"
proof -
  have "upsert_ticker_info demo_engine demo_dumps ''2024-02-01 10:00:00'' demo_store ''XYZ''
           [(''marketCap'', PInt 9223372036854775808)] =
       (Inl (OverflowError ''Python int too large to convert to SQLite INTEGER''), demo_store)"
    by (simp add: upsert_ticker_info_def demo_dumps_def info_params_def dict_get_def
        bind_param_def)
  then show ?thesis
    by (simp add: pk_info_def demo_store_def demo_info_row_def dict_get_def)
qed

section \<open>Missing metadata\<close>

text \<open>
  C3. When the provider's metadata call returns an empty mapping, the fetch of either
  script raises (a \<^verbatim>\<open>RuntimeError\<close> that says no metadata was returned), the run ends
  with this error, and the store is left exactly as it was: no row of
  \<^verbatim>\<open>ticker_info\<close> is written or updated, and the price merge is not reached.
\<close>

theorem empty_metadata_fails:
  assumes "yf_info yf ticker = []"
  shows "fetch_info yf ticker = Inl (RuntimeError (''No metadata returned for ticker: '' @ ticker))
    \<and> fetch_ticker_info yf ticker =
        Inl (RuntimeError (''No ticker metadata returned for '' @ ticker))
    \<and> icolcap_main eng yf json_dumps now store ticker period =
        (Inl (RuntimeError (''No metadata returned for ticker: '' @ ticker)), store)
    \<and> add_main eng yf json_dumps now store ticker period =
        (Inl (RuntimeError (''No ticker metadata returned for '' @ ticker)), store)"
  using assms
  by (simp add: fetch_info_def fetch_ticker_info_def icolcap_main_def add_main_def
      create_tables_def)

text \<open>
  The theorem for a ticker the example provider does not know.
\<close>

theorem empty_metadata_fails_witness:
  "yf_info demo_yf ''ABC'' = []
   \<and> add_main demo_engine demo_yf demo_dumps ''2024-02-01 10:00:00'' demo_store ''ABC'' ''max'' =
       (Inl (RuntimeError ''No ticker metadata returned for ABC''), demo_store)
   \<and> icolcap_main demo_engine demo_yf demo_dumps ''2024-02-01 10:00:00'' demo_store ''ABC''
        ''max'' =
       (Inl (RuntimeError ''No metadata returned for ticker: ABC''), demo_store)"
proof -
  have h: "yf_info demo_yf ''ABC'' = []"
    by (simp add: demo_yf_def)
  from empty_metadata_fails [OF h, of demo_engine demo_dumps "''2024-02-01 10:00:00''"
      demo_store "''max''"] h
  show ?thesis by simp
qed

section \<open>The reporter on a ticker without rows\<close>

text \<open>
  C9, as the code has it. When the store file is present and holds table
  \<^verbatim>\<open>ticker_prices\<close> with no row of the requested ticker,
  \<^verbatim>\<open>check_ticker_in_db.py\<close> prints its "No price rows found" line and returns
  normally: the result is a printed line, not an error. On a present file in which the
  table does not exist, or that is no database, the query raises.
\<close>

theorem no_rows_is_not_an_error:
  "(files db_path = Some (Store conn)
      \<and> filter (\<lambda>r. p_ticker r = ticker) (ticker_prices conn) = [] \<longrightarrow>
        check_main files db_path ticker = Inr (NoPriceRows ticker))
   \<and> (files db_path = Some No_Tables \<longrightarrow>
        check_main files db_path ticker =
          Inl (OperationalError ''no such table: ticker_prices''))
   \<and> (files db_path = Some Not_A_Database \<longrightarrow>
        check_main files db_path ticker = Inl (DatabaseError ''file is not a database''))"
  by (simp add: check_main_def summary_query_def)

text \<open>
  The theorem on the example store and a ticker it does not hold.
\<close>

theorem no_rows_is_not_an_error_witness:
  "demo_files ''stock_data.db'' = Some (Store demo_store)
   \<and> filter (\<lambda>r. p_ticker r = ''QQQ'') (ticker_prices demo_store) = []
   \<and> check_main demo_files ''stock_data.db'' ''QQQ'' = Inr (NoPriceRows ''QQQ'')"
proof -
  have h1: "demo_files ''stock_data.db'' = Some (Store demo_store)"
    by (simp add: demo_files_def)
  have h2: "filter (\<lambda>r. p_ticker r = ''QQQ'') (ticker_prices demo_store) = []"
    by (simp add: demo_store_def demo_price_def)
  from no_rows_is_not_an_error [of demo_files "''stock_data.db''" demo_store "''QQQ''"] h1 h2
  show ?thesis by blast
qed

text \<open>
  C9 as the specification states it fails on a present store file without the table:
  it holds no price row of any ticker, and the reporter raises.
\<close>

theorem missing_table_counterexample:
  "demo_files ''empty.db'' = Some No_Tables
   \<and> check_main demo_files ''empty.db'' ''XYZ'' =
       Inl (OperationalError ''no such table: ticker_prices'')"
  by (simp add: demo_files_def check_main_def)

section \<open>Stored dates\<close>

lemma normalize_date_chars:
  assumes "year ts < 10000" "month ts < 100" "day ts < 100"
  shows "length (normalize_date ts) = 10 \<and> set (normalize_date ts) \<subseteq> set ''0123456789-''"
proof -
  define D where "D = set ''0123456789-''"
  have digit: "digit_char n \<in> D" if "n < 10" for n
    using digit_is_digit [OF that] by (auto simp: D_def)
  have dash: "CHR ''-'' \<in> D"
    by (simp add: D_def)
  have low: "digit_char (n mod 10) \<in> D" for n
    by (rule digit) simp
  have y: "digit_char (year ts div 1000) \<in> D"
    using assms(1) by (intro digit) simp
  have m: "digit_char (month ts div 10) \<in> D"
    using assms(2) by (intro digit) simp
  have d: "digit_char (day ts div 10) \<in> D"
    using assms(3) by (intro digit) simp
  have "length (normalize_date ts) = 10 \<and> set (normalize_date ts) \<subseteq> D"
    unfolding normalize_date_form [OF assms] using y m d low dash by simp
  then show ?thesis by (simp only: D_def)
qed

lemma normalize_date_ignores_time:
  "normalize_date (ts\<lparr>hour := h, minute := mi, second := s, utcoffset := z\<rparr>) = normalize_date ts"
  by (simp add: normalize_date_def dt_date_def)

lemma stored_date_present:
  assumes "b \<in> set history"
  shows "\<exists>r\<in>set (foldl insert_price tbl
                    (map (\<lambda>b. excluded_price (price_tuple ticker b)) history)).
           p_ticker r = ticker \<and> p_date r = normalize_date (stamp b)"
proof -
  define rows where "rows = map (\<lambda>b. excluded_price (price_tuple ticker b)) history"
  have "(ticker, normalize_date (stamp b)) \<in> set (map price_key rows)"
    using assms by (force simp: rows_def price_key_tuple)
  then have "(ticker, normalize_date (stamp b)) \<in> set (map price_key (foldl insert_price tbl rows))"
    unfolding keys_executemany by simp
  then obtain r where r: "r \<in> set (foldl insert_price tbl rows)"
    and "price_key r = (ticker, normalize_date (stamp b))"
    by auto
  then have "p_ticker r = ticker \<and> p_date r = normalize_date (stamp b)"
    by (simp add: price_key_def)
  with r show ?thesis unfolding rows_def by blast
qed

text \<open>
  C5. For every bar of the fetched history whose index is a calendar date (year up to
  9999, month up to 12, day up to 31, as every \<^verbatim>\<open>datetime.date\<close> is), the table holds
  after the merge a row of the ticker under the normalized date of the bar. That date is
  the ten characters YYYY-MM-DD made of the decimal digits of the year, month and day
  of the timestamp: it holds digits and dashes only, so no time of day and no timezone,
  and it does not change when the hour, minute, second and UTC offset of the timestamp
  change. The timestamp 2024-03-01T00:00:00-05:00 gives "2024-03-01".
\<close>

theorem stored_date_is_calendar_date:
  assumes "b \<in> set (yf_history yf ticker period)"
    and "year (stamp b) \<le> 9999" and "month (stamp b) \<le> 12" and "day (stamp b) \<le> 31"
  shows "(\<exists>r\<in>set (ticker_prices (fst (upsert_price_history yf conn ticker period))).
            p_ticker r = ticker \<and> p_date r = normalize_date (stamp b))
    \<and> normalize_date (stamp b) =
        [digit_char (year (stamp b) div 1000), digit_char (year (stamp b) div 100 mod 10),
         digit_char (year (stamp b) div 10 mod 10), digit_char (year (stamp b) mod 10),
         CHR ''-'',
         digit_char (month (stamp b) div 10), digit_char (month (stamp b) mod 10),
         CHR ''-'',
         digit_char (day (stamp b) div 10), digit_char (day (stamp b) mod 10)]
    \<and> length (normalize_date (stamp b)) = 10
    \<and> set (normalize_date (stamp b)) \<subseteq> set ''0123456789-''
    \<and> (\<forall>h mi s z. normalize_date ((stamp b)\<lparr>hour := h, minute := mi, second := s,
                                           utcoffset := z\<rparr>) = normalize_date (stamp b))
    \<and> normalize_date \<lparr>year = 2024, month = 3, day = 1, hour = 0, minute = 0, second = 0,
                       utcoffset = Some (- 300)\<rparr> = ''2024-03-01''"
proof -
  from assms(2-4) have range: "year (stamp b) < 10000" "month (stamp b) < 100" "day (stamp b) < 100"
    by simp_all
  from assms(1) have "yf_history yf ticker period \<noteq> []" by auto
  with stored_date_present [OF assms(1), of "ticker_prices conn" ticker]
  have stored: "\<exists>r\<in>set (ticker_prices (fst (upsert_price_history yf conn ticker period))).
            p_ticker r = ticker \<and> p_date r = normalize_date (stamp b)"
    by (simp add: upsert_price_history_run)
  have example: "normalize_date \<lparr>year = 2024, month = 3, day = 1, hour = 0, minute = 0,
      second = 0, utcoffset = Some (- 300)\<rparr> = ''2024-03-01''"
    by (simp add: normalize_date_form digit_char_def)
  from stored normalize_date_form [OF range] normalize_date_chars [OF range]
    normalize_date_ignores_time [of _ _ _ _ "stamp b"] example
  show ?thesis by blast
qed

text \<open>
  The theorem on the example: the bar stamped 2024-01-03T16:00:00-05:00 is stored under
  "2024-01-03".
\<close>

theorem stored_date_is_calendar_date_witness:
  "demo_bar 3 16 (23 / 2) \<in> set (yf_history demo_yf ''XYZ'' ''max'')
   \<and> year (stamp (demo_bar 3 16 (23 / 2))) \<le> 9999
   \<and> month (stamp (demo_bar 3 16 (23 / 2))) \<le> 12
   \<and> day (stamp (demo_bar 3 16 (23 / 2))) \<le> 31
   \<and> normalize_date (stamp (demo_bar 3 16 (23 / 2))) = ''2024-01-03''
   \<and> ''2024-01-03'' \<in> set (map p_date
        (ticker_prices (fst (upsert_price_history demo_yf demo_store ''XYZ'' ''max''))))"
proof -
  have h1: "demo_bar 3 16 (23 / 2) \<in> set (yf_history demo_yf ''XYZ'' ''max'')"
    by (simp add: demo_yf_def)
  have h2: "year (stamp (demo_bar 3 16 (23 / 2))) \<le> 9999"
    and h3: "month (stamp (demo_bar 3 16 (23 / 2))) \<le> 12"
    and h4: "day (stamp (demo_bar 3 16 (23 / 2))) \<le> 31"
    by (simp_all add: demo_bar_def)
  have v: "[digit_char (year (stamp (demo_bar 3 16 (23 / 2))) div 1000),
         digit_char (year (stamp (demo_bar 3 16 (23 / 2))) div 100 mod 10),
         digit_char (year (stamp (demo_bar 3 16 (23 / 2))) div 10 mod 10),
         digit_char (year (stamp (demo_bar 3 16 (23 / 2))) mod 10),
         CHR ''-'',
         digit_char (month (stamp (demo_bar 3 16 (23 / 2))) div 10),
         digit_char (month (stamp (demo_bar 3 16 (23 / 2))) mod 10),
         CHR ''-'',
         digit_char (day (stamp (demo_bar 3 16 (23 / 2))) div 10),
         digit_char (day (stamp (demo_bar 3 16 (23 / 2))) mod 10)] = ''2024-01-03''"
    by (simp add: demo_bar_def digit_char_def)
  note inst = stored_date_is_calendar_date [OF h1 h2 h3 h4, of demo_store]
  from inst v have d: "normalize_date (stamp (demo_bar 3 16 (23 / 2))) = ''2024-01-03''"
    by simp
  from inst d have "''2024-01-03'' \<in> set (map p_date
        (ticker_prices (fst (upsert_price_history demo_yf demo_store ''XYZ'' ''max''))))"
    by force
  with h1 h2 h3 h4 d show ?thesis by blast
qed

section \<open>The summary of a ticker\<close>









end
